theory Spec2Isabelle
  imports Complex_Main
begin

section \<open>Values of the request body\<close>

text \<open>
  The controller reads \<open>req.body\<close>, whose fields have the TypeScript type \<open>any\<close>:
  a field may hold any JSON value, or be missing (\<open>undefined\<close>). Numbers are
  rationals, which covers every finite double a JSON body can carry.
\<close>

datatype jsval =
    JUndefined
  | JNull
  | JBool bool
  | JNum rat
  | JStr string
  | JArr "jsval list"
  | JObj "(string \<times> jsval) list"

text \<open>JavaScript truthiness, as used by \<open>if (x)\<close>, \<open>!x\<close> and \<open>x ? a : b\<close>.\<close>

fun truthy :: "jsval \<Rightarrow> bool" where
  "truthy JUndefined = False"
| "truthy JNull = False"
| "truthy (JBool b) = b"
| "truthy (JNum x) = (x \<noteq> 0)"
| "truthy (JStr s) = (s \<noteq> [])"
| "truthy (JArr xs) = True"
| "truthy (JObj kvs) = True"

text \<open>
  Reading a property of the body object: \<open>const { title, ... } = req.body\<close>.
  The body is a list of key-value pairs with the keys of an object (each at
  most once). A key that is not there reads as \<open>undefined\<close>.
\<close>

definition field :: "(string \<times> jsval) list \<Rightarrow> string \<Rightarrow> jsval" where
  "field b k = (case map_of b k of None \<Rightarrow> JUndefined | Some v \<Rightarrow> v)"

section \<open>Documents, requests and responses\<close>

text \<open>
  A stored post. \<open>title\<close>, \<open>slug\<close>, \<open>content\<close>, \<open>category\<close>, \<open>tags\<close> and \<open>seo\<close> hold
  whatever value the controller assigns; \<open>author\<close> is the string form of the
  author's id, which is what the ownership check compares. The schema of the
  Post model (\<open>models/Post\<close>) is not among the sources: whether it accepts a
  document is a parameter of the model (see \<open>create_id\<close> and \<open>save_ok\<close> below), and
  an accepted document is stored with the values the controller gave it.
\<close>

record post =
  title :: jsval
  slug :: jsval
  content :: jsval
  author :: string
  category :: jsval
  tags :: jsval
  seo :: jsval
  featuredImage :: "string option"
  published :: bool

text \<open>The collection of posts, keyed by document id.\<close>

type_synonym store = "string \<rightharpoonup> post"

text \<open>
  \<open>req.user\<close>, attached by the authentication middleware when there is one. Its
  type is declared in \<open>middleware/auth\<close>, which is not among the sources; it has
  the two properties the controller reads, \<open>id\<close> and \<open>role\<close>, both strings.
\<close>

record user =
  user_id :: string
  role :: string

text \<open>
  The parts of the request the controller reads: \<open>req.params.id\<close>, \<open>req.user\<close>,
  \<open>req.body\<close> and \<open>req.file?.path\<close>.
\<close>

record request =
  params_id :: string
  caller :: "user option"
  body :: "(string \<times> jsval) list"
  file_path :: "string option"

datatype json_body =
    Error string
  | Message string
  | Doc "post option"

record response =
  status :: nat
  payload :: json_body

definition respond :: "nat \<Rightarrow> json_body \<Rightarrow> response" where
  "respond code b = \<lparr>status = code, payload = b\<rparr>"

section \<open>Collaborators outside the controller\<close>

text \<open>
  The controller calls into the runtime, the ORM and a helper module of the
  repository. They are parameters of the model:
  \<^item> \<open>isValidObjectId\<close> is \<open>mongoose.isValidObjectId\<close>;
  \<^item> \<open>JSON_parse\<close> is \<open>JSON.parse\<close>, \<open>None\<close> when it throws;
  \<^item> \<open>generateSlug\<close> is the slug generator of \<open>utils/slugfy\<close>, \<open>None\<close> when the
    call throws;
  \<^item> \<open>toString_other\<close> is \<open>toString()\<close> on a value that is not a string, \<open>None\<close>
    when the call throws (an object whose own \<open>toString\<close> is not a function);
  \<^item> \<open>create_id\<close> is the outcome of \<open>Post.create\<close> on a document: the id the new
    document gets, or \<open>None\<close> when the schema or the store rejects it;
  \<^item> \<open>save_ok\<close> says whether \<open>existing.save()\<close> is accepted.
\<close>

record env =
  isValidObjectId :: "string \<Rightarrow> bool"
  JSON_parse :: "string \<Rightarrow> jsval option"
  generateSlug :: "jsval \<Rightarrow> string option"
  toString_other :: "jsval \<Rightarrow> string option"
  create_id :: "store \<Rightarrow> post \<Rightarrow> string option"
  save_ok :: "store \<Rightarrow> string \<Rightarrow> post \<Rightarrow> bool"

text \<open>
  \<open>slug.toString()\<close>: a string is its own string form, and the call cannot throw
  on it; on any other value the runtime decides.
\<close>

definition js_toString :: "env \<Rightarrow> jsval \<Rightarrow> string option" where
  "js_toString env v = (case v of JStr s \<Rightarrow> Some s | _ \<Rightarrow> toString_other env v)"

definition findById :: "store \<Rightarrow> string \<Rightarrow> post option" where
  "findById db oid = db oid"

definition findByIdAndDelete :: "store \<Rightarrow> string \<Rightarrow> store" where
  "findByIdAndDelete db oid = db(oid := None)"

text \<open>
  \<open>Post.create\<close>: the document is inserted under a new id, or the call throws and
  nothing is written. An id that is already taken is a duplicate key, which
  throws as well.
\<close>

definition Post_create :: "env \<Rightarrow> store \<Rightarrow> post \<Rightarrow> (string \<times> store) option" where
  "Post_create env db p =
     (case create_id env db p of
        None \<Rightarrow> None
      | Some oid \<Rightarrow> if db oid = None then Some (oid, db(oid \<mapsto> p)) else None)"

definition save :: "env \<Rightarrow> store \<Rightarrow> string \<Rightarrow> post \<Rightarrow> store option" where
  "save env db oid p = (if save_ok env db oid p then Some (db(oid \<mapsto> p)) else None)"

section \<open>addPost\<close>

text \<open>The id stored as author when the request carries no caller id.\<close>

definition fallback_author :: string where
  "fallback_author = ''68ae1145a564344c2e6e03fb''"

text \<open>\<open>published === "true" || published === true\<close>\<close>

definition coerce_published :: "jsval \<Rightarrow> bool" where
  "coerce_published v = (v = JStr ''true'' \<or> v = JBool True)"

text \<open>\<open>slug ? slug.toString() : generateSlug(title)\<close>\<close>

definition finalSlug :: "env \<Rightarrow> jsval \<Rightarrow> jsval \<Rightarrow> string option" where
  "finalSlug env sl ti = (if truthy sl then js_toString env sl else generateSlug env ti)"

text \<open>The block "Parse tags safely": the parsed tags, or the 400 response.\<close>

definition parsedTags :: "env \<Rightarrow> jsval \<Rightarrow> response + jsval" where
  "parsedTags env tg =
     (if truthy tg then
        (case tg of
           JStr s \<Rightarrow>
             (case JSON_parse env s of
                None \<Rightarrow> Inl (respond 400 (Error ''Invalid tags JSON''))
              | Some v \<Rightarrow> Inr v)
         | _ \<Rightarrow> Inr tg)
      else Inr (JArr []))"

text \<open>The block "Parse SEO safely".\<close>

definition parsedSeo :: "env \<Rightarrow> jsval \<Rightarrow> response + jsval" where
  "parsedSeo env se =
     (case se of
        JStr s \<Rightarrow>
          (case JSON_parse env s of
             None \<Rightarrow> Inl (respond 400 (Error ''Invalid SEO JSON''))
           | Some v \<Rightarrow> Inr v)
      | _ \<Rightarrow> Inr se)"

text \<open>\<open>req.user?.id ? req.user.id : "68ae1145a564344c2e6e03fb"\<close>\<close>

definition author_of :: "user option \<Rightarrow> string" where
  "author_of c =
     (case c of
        None \<Rightarrow> fallback_author
      | Some u \<Rightarrow> if user_id u \<noteq> [] then user_id u else fallback_author)"

text \<open>
  POST /api/posts. Every exit of the handler is a branch: the 400 of the
  required fields, the 400 of each JSON parse, the 400 of the \<open>catch\<close> block
  (where \<open>slug.toString()\<close>, \<open>generateSlug\<close> or \<open>Post.create\<close> throws; the \<open>details\<close>
  of that body are left out), and the 201 with the document read back from the
  store.
\<close>

definition addPost :: "env \<Rightarrow> request \<Rightarrow> store \<Rightarrow> response \<times> store" where
  "addPost env req db =
     (let ti = field (body req) ''title'';
          sl = field (body req) ''slug'';
          co = field (body req) ''content'';
          ca = field (body req) ''category'';
          tg = field (body req) ''tags'';
          se = field (body req) ''seo'';
          pu = field (body req) ''published''
      in
        if \<not> truthy ti \<or> \<not> truthy co \<or> \<not> truthy ca \<or> \<not> truthy se
        then (respond 400 (Error ''title, content, category and seo are required''), db)
        else
          (case finalSlug env sl ti of
             None \<Rightarrow> (respond 400 (Error ''Invalid data''), db)
           | Some fs \<Rightarrow>
               (case parsedTags env tg of
                  Inl r \<Rightarrow> (r, db)
                | Inr pt \<Rightarrow>
                    (case parsedSeo env se of
                       Inl r \<Rightarrow> (r, db)
                     | Inr ps \<Rightarrow>
                         (case Post_create env db
                                 \<lparr>title = ti, slug = JStr fs, content = co,
                                  author = author_of (caller req), category = ca,
                                  tags = pt, seo = ps,
                                  featuredImage = file_path req,
                                  published = coerce_published pu\<rparr> of
                            None \<Rightarrow> (respond 400 (Error ''Invalid data''), db)
                          | Some (oid, db') \<Rightarrow>
                              (respond 201 (Doc (findById db' oid)), db'))))))"

section \<open>updatePost\<close>

text \<open>
  The four guarded assignments
  \<open>if (title) existing.title = title\<close>, ..., \<open>if (category) existing.category = category\<close>.
\<close>

definition assign_scalars :: "(string \<times> jsval) list \<Rightarrow> post \<Rightarrow> post" where
  "assign_scalars b existing =
     (let e1 = (if truthy (field b ''title'') then existing\<lparr>title := field b ''title''\<rparr> else existing);
          e2 = (if truthy (field b ''slug'') then e1\<lparr>slug := field b ''slug''\<rparr> else e1);
          e3 = (if truthy (field b ''content'') then e2\<lparr>content := field b ''content''\<rparr> else e2)
      in if truthy (field b ''category'') then e3\<lparr>category := field b ''category''\<rparr> else e3)"

text \<open>The block "Tags" of the update.\<close>

definition assign_tags :: "env \<Rightarrow> jsval \<Rightarrow> post \<Rightarrow> response + post" where
  "assign_tags env tg existing =
     (if truthy tg then
        (case tg of
           JStr s \<Rightarrow>
             (case JSON_parse env s of
                None \<Rightarrow> Inl (respond 400 (Error ''Invalid tags JSON''))
              | Some v \<Rightarrow> Inr (existing\<lparr>tags := v\<rparr>))
         | _ \<Rightarrow> Inr (existing\<lparr>tags := tg\<rparr>))
      else Inr existing)"

text \<open>The block "SEO" of the update.\<close>

definition assign_seo :: "env \<Rightarrow> jsval \<Rightarrow> post \<Rightarrow> response + post" where
  "assign_seo env se existing =
     (if truthy se then
        (case se of
           JStr s \<Rightarrow>
             (case JSON_parse env s of
                None \<Rightarrow> Inl (respond 400 (Error ''Invalid SEO JSON''))
              | Some v \<Rightarrow> Inr (existing\<lparr>seo := v\<rparr>))
         | _ \<Rightarrow> Inr (existing\<lparr>seo := se\<rparr>))
      else Inr existing)"

text \<open>\<open>if (published !== undefined) existing.published = ...\<close>\<close>

definition assign_published :: "jsval \<Rightarrow> post \<Rightarrow> post" where
  "assign_published pu existing =
     (if pu \<noteq> JUndefined then existing\<lparr>published := coerce_published pu\<rparr> else existing)"

text \<open>\<open>if (req.file?.path) existing.featuredImage = req.file.path\<close>\<close>

definition assign_image :: "string option \<Rightarrow> post \<Rightarrow> post" where
  "assign_image f existing =
     (case f of
        None \<Rightarrow> existing
      | Some p \<Rightarrow> if p \<noteq> [] then existing\<lparr>featuredImage := Some p\<rparr> else existing)"

text \<open>The ownership test shared by update and delete.\<close>

definition forbidden :: "user \<Rightarrow> post \<Rightarrow> bool" where
  "forbidden u existing = (role u \<noteq> ''admin'' \<and> author existing \<noteq> user_id u)"

text \<open>
  PUT /api/posts/:id. The assignments change the loaded document only; the
  store changes at \<open>existing.save()\<close>, so every earlier return leaves it as it was.
\<close>

definition updatePost :: "env \<Rightarrow> request \<Rightarrow> store \<Rightarrow> response \<times> store" where
  "updatePost env req db =
     (let oid = params_id req in
        if \<not> isValidObjectId env oid then (respond 400 (Error ''Invalid ID''), db)
        else
          (case findById db oid of
             None \<Rightarrow> (respond 404 (Error ''Post not found''), db)
           | Some existing \<Rightarrow>
               (case caller req of
                  None \<Rightarrow> (respond 401 (Error ''Unauthorized''), db)
                | Some u \<Rightarrow>
                    if forbidden u existing then (respond 403 (Error ''Forbidden''), db)
                    else
                      (case assign_tags env (field (body req) ''tags'')
                              (assign_scalars (body req) existing) of
                         Inl r \<Rightarrow> (r, db)
                       | Inr e1 \<Rightarrow>
                           (case assign_seo env (field (body req) ''seo'') e1 of
                              Inl r \<Rightarrow> (r, db)
                            | Inr e2 \<Rightarrow>
                                (case save env db oid
                                        (assign_image (file_path req)
                                           (assign_published (field (body req) ''published'') e2)) of
                                   None \<Rightarrow> (respond 400 (Error ''Invalid update request''), db)
                                 | Some db' \<Rightarrow>
                                     (respond 200 (Doc (findById db' oid)), db')))))))"

section \<open>deletePost\<close>

text \<open>DELETE /api/posts/:id.\<close>

definition deletePost :: "env \<Rightarrow> request \<Rightarrow> store \<Rightarrow> response \<times> store" where
  "deletePost env req db =
     (let oid = params_id req in
        if \<not> isValidObjectId env oid then (respond 400 (Error ''Invalid ID''), db)
        else
          (case findById db oid of
             None \<Rightarrow> (respond 404 (Error ''Post not found''), db)
           | Some existing \<Rightarrow>
               (case caller req of
                  None \<Rightarrow> (respond 401 (Error ''Unauthorized''), db)
                | Some u \<Rightarrow>
                    if forbidden u existing then (respond 403 (Error ''Forbidden''), db)
                    else (respond 200 (Message ''Post deleted''), findByIdAndDelete db oid))))"

section \<open>A concrete environment and concrete data\<close>

text \<open>
  The theorems below hold for every environment. To run the handlers on
  concrete requests, the parameters are fixed here. Each sample agrees with the
  collaborator it stands for on the arguments the evaluations pass to it.
\<close>

text \<open>A 24-digit hexadecimal string, the usual form of an ObjectId.\<close>

definition hex24 :: "string \<Rightarrow> bool" where
  "hex24 s = (length s = 24 \<and> list_all (\<lambda>c. c \<in> set ''0123456789abcdefABCDEF'') s)"

text \<open>
  A stand-in for \<open>JSON.parse\<close>: it parses the texts \<open>[]\<close> and \<open>{}\<close> and answers
  \<open>None\<close> (a \<open>SyntaxError\<close>) to every other text. The evaluations below pass it the
  empty text and \<open>{bad\<close> only, which \<open>JSON.parse\<close> rejects as well.
\<close>

definition sample_parse :: "string \<Rightarrow> jsval option" where
  "sample_parse s =
     (if s = ''[]'' then Some (JArr [])
      else if s = ''{}'' then Some (JObj [])
      else None)"

text \<open>
  Modelled from the spec: the slug generator (\<open>utils/slugfy\<close>) is not among the
  sources, and the spec says that it lowercases the title. This is the
  lowercasing of one ASCII letter.
\<close>

definition lower_char :: "char \<Rightarrow> char" where
  "lower_char c =
     (case map_of (zip ''ABCDEFGHIJKLMNOPQRSTUVWXYZ'' ''abcdefghijklmnopqrstuvwxyz'') c of
        None \<Rightarrow> c
      | Some d \<Rightarrow> d)"

text \<open>
  Modelled from the spec: the slug generator (\<open>utils/slugfy\<close>) is not among the
  sources. The spec describes it as lowercasing the title and replacing
  whitespace, and gives \<open>Hello World\<close> \<open>\<mapsto>\<close> \<open>hello-world\<close> as its example; this
  sample does that much (the rest of the generator, punctuation and the length
  bound, is left out) and is applied to that title only. A title that is not a
  string is taken to make the call throw.
\<close>

definition sample_slug :: "jsval \<Rightarrow> string option" where
  "sample_slug v =
     (case v of
        JStr s \<Rightarrow> Some (map (\<lambda>c. if c = CHR '' '' then CHR ''-'' else lower_char c) s)
      | _ \<Rightarrow> None)"

definition id_a :: string where
  "id_a = ''64f1a2b3c4d5e6f708192a3b''"

definition id_b :: string where
  "id_b = ''64f1a2b3c4d5e6f708192a3c''"

definition sample_env :: env where
  "sample_env =
     \<lparr>isValidObjectId = hex24,
      JSON_parse = sample_parse,
      generateSlug = sample_slug,
      toString_other = (\<lambda>v. Some ''[object Object]''),
      create_id = (\<lambda>db p. Some id_b),
      save_ok = (\<lambda>db oid p. True)\<rparr>"

definition alice :: user where
  "alice = \<lparr>user_id = ''64f1a2b3c4d5e6f708192a01'', role = ''author''\<rparr>"

definition bob :: user where
  "bob = \<lparr>user_id = ''64f1a2b3c4d5e6f708192a02'', role = ''author''\<rparr>"

text \<open>A post of Alice's, stored under \<open>id_a\<close>.\<close>

definition post_a :: post where
  "post_a =
     \<lparr>title = JStr ''First post'', slug = JStr ''first-post'', content = JStr ''Text'',
      author = ''64f1a2b3c4d5e6f708192a01'', category = JStr ''64f1a2b3c4d5e6f708192a10'',
      tags = JArr [], seo = JObj [(''title'', JStr ''x'')],
      featuredImage = None, published = False\<rparr>"

definition db_a :: store where
  "db_a = [id_a \<mapsto> post_a]"

text \<open>A well-formed create body: the example request of the spec.\<close>

definition hello_body :: "(string \<times> jsval) list" where
  "hello_body =
     [(''title'', JStr ''Hello World''), (''content'', JStr ''...''),
      (''category'', JStr ''64f1a2b3c4d5e6f708192a10''),
      (''seo'', JObj [(''title'', JStr ''x'')])]"

definition mk_request :: "string \<Rightarrow> user option \<Rightarrow> (string \<times> jsval) list \<Rightarrow> request" where
  "mk_request oid c b = \<lparr>params_id = oid, caller = c, body = b, file_path = None\<rparr>"

section \<open>Facts about the samples\<close>

lemma hex24_id_a: "hex24 id_a"
  by (simp add: hex24_def id_a_def)

lemma hex24_id_b: "hex24 id_b"
  by (simp add: hex24_def id_b_def)

lemma id_a_neq_id_b: "id_a \<noteq> id_b"
  by (simp add: id_a_def id_b_def)

lemma sample_slug_hello: "sample_slug (JStr ''Hello World'') = Some ''hello-world''"
  by (simp add: sample_slug_def lower_char_def)

lemma sample_env_sel:
  "isValidObjectId sample_env = hex24"
  "JSON_parse sample_env = sample_parse"
  "generateSlug sample_env = sample_slug"
  "create_id sample_env db p = Some id_b"
  "save_ok sample_env db oid p = True"
  by (simp_all add: sample_env_def)

section \<open>Ownership: 403 without a write\<close>

text \<open>
  C1. An update or a delete of an existing post (its id is well-formed, as every
  stored id is) by an authenticated caller whose role is not admin and whose id
  is not the post's author gets status 403, and the store is the one before the
  call: the post is still there with every field as it was.
\<close>

theorem C1_forbidden_leaves_post:
  assumes "isValidObjectId env (params_id req)"
    and "db (params_id req) = Some p"
    and "caller req = Some u"
    and "role u \<noteq> ''admin''"
    and "user_id u \<noteq> author p"
  shows "status (fst (updatePost env req db)) = 403
       \<and> snd (updatePost env req db) = db
       \<and> status (fst (deletePost env req db)) = 403
       \<and> snd (deletePost env req db) = db
       \<and> snd (updatePost env req db) (params_id req) = Some p
       \<and> snd (deletePost env req db) (params_id req) = Some p"
proof -
  have f: "forbidden u p"
    using assms(4,5) by (auto simp: forbidden_def)
  have u: "updatePost env req db = (respond 403 (Error ''Forbidden''), db)"
    using assms(1,2,3) f by (simp add: updatePost_def findById_def)
  have d: "deletePost env req db = (respond 403 (Error ''Forbidden''), db)"
    using assms(1,2,3) f by (simp add: deletePost_def findById_def)
  show ?thesis
    using u d assms(2) by (simp add: respond_def)
qed

theorem C1_forbidden_witness:
  "status (fst (updatePost sample_env
      (mk_request id_a (Some bob) [(''title'', JStr ''Taken over'')]) db_a)) = 403
   \<and> snd (updatePost sample_env
      (mk_request id_a (Some bob) [(''title'', JStr ''Taken over'')]) db_a) = db_a
   \<and> status (fst (deletePost sample_env
      (mk_request id_a (Some bob) [(''title'', JStr ''Taken over'')]) db_a)) = 403
   \<and> snd (deletePost sample_env
      (mk_request id_a (Some bob) [(''title'', JStr ''Taken over'')]) db_a) = db_a"
proof -
  let ?req = "mk_request id_a (Some bob) [(''title'', JStr ''Taken over'')]"
  have 1: "isValidObjectId sample_env (params_id ?req)"
    by (simp add: mk_request_def sample_env_sel hex24_id_a)
  have 2: "db_a (params_id ?req) = Some post_a"
    by (simp add: mk_request_def db_a_def)
  have 3: "caller ?req = Some bob"
    by (simp add: mk_request_def)
  have 4: "role bob \<noteq> ''admin''"
    by (simp add: bob_def)
  have 5: "user_id bob \<noteq> author post_a"
    by (simp add: bob_def post_a_def)
  show ?thesis
    using C1_forbidden_leaves_post [of sample_env ?req db_a post_a bob] 1 2 3 4 5
    by simp
qed

section \<open>The order of the checks in update and delete\<close>

lemma updatePost_absent:
  "isValidObjectId env (params_id req) \<Longrightarrow> db (params_id req) = None \<Longrightarrow>
   updatePost env req db = (respond 404 (Error ''Post not found''), db)"
  by (simp add: updatePost_def findById_def)

lemma updatePost_unauthenticated:
  "isValidObjectId env (params_id req) \<Longrightarrow> db (params_id req) = Some p \<Longrightarrow>
   caller req = None \<Longrightarrow>
   updatePost env req db = (respond 401 (Error ''Unauthorized''), db)"
  by (simp add: updatePost_def findById_def)

lemma deletePost_absent:
  "isValidObjectId env (params_id req) \<Longrightarrow> db (params_id req) = None \<Longrightarrow>
   deletePost env req db = (respond 404 (Error ''Post not found''), db)"
  by (simp add: deletePost_def findById_def)

lemma deletePost_unauthenticated:
  "isValidObjectId env (params_id req) \<Longrightarrow> db (params_id req) = Some p \<Longrightarrow>
   caller req = None \<Longrightarrow>
   deletePost env req db = (respond 401 (Error ''Unauthorized''), db)"
  by (simp add: deletePost_def findById_def)

lemma deletePost_allowed:
  "isValidObjectId env (params_id req) \<Longrightarrow> db (params_id req) = Some p \<Longrightarrow>
   caller req = Some u \<Longrightarrow> \<not> forbidden u p \<Longrightarrow>
   deletePost env req db =
     (respond 200 (Message ''Post deleted''), db(params_id req := None))"
  by (simp add: deletePost_def findById_def findByIdAndDelete_def)

lemma status_respond: "status (respond c b) = c"
  by (simp add: respond_def)

text \<open>
  C2, as stated, at a concrete request: an update with no caller attached, for
  the well-formed id \<open>id_b\<close> that the store does not hold, is answered 404 and
  not 401.
\<close>

theorem C2_unauthenticated_not_401_counterexample:
  "caller (mk_request id_b None [(''title'', JStr ''New'')]) = None
   \<and> status (fst (updatePost sample_env
        (mk_request id_b None [(''title'', JStr ''New'')]) db_a)) = 404
   \<and> status (fst (updatePost sample_env
        (mk_request id_b None [(''title'', JStr ''New'')]) db_a)) \<noteq> 401"
proof -
  let ?req = "mk_request id_b None [(''title'', JStr ''New'')]"
  have v: "isValidObjectId sample_env (params_id ?req)"
    by (simp add: mk_request_def sample_env_sel hex24_id_b)
  have a: "db_a (params_id ?req) = None"
    using id_a_neq_id_b by (auto simp: mk_request_def db_a_def)
  show ?thesis
    using updatePost_absent [of sample_env ?req db_a] v a
    by (simp add: status_respond) (simp add: mk_request_def)
qed

text \<open>
  C2, amended. For a well-formed id: an update with no caller attached of an
  existing post is answered 401, and an update of an absent post is answered
  404, whoever calls. Neither writes.
\<close>

theorem C2_update_401_or_404:
  assumes "isValidObjectId env (params_id req)"
  shows "(caller req = None \<and> db (params_id req) \<noteq> None \<longrightarrow>
            status (fst (updatePost env req db)) = 401 \<and> snd (updatePost env req db) = db)
       \<and> (db (params_id req) = None \<longrightarrow>
            status (fst (updatePost env req db)) = 404 \<and> snd (updatePost env req db) = db)"
  using assms
  by (auto simp: updatePost_absent updatePost_unauthenticated status_respond)

theorem C2_update_401_or_404_witness:
  "status (fst (updatePost sample_env (mk_request id_a None []) db_a)) = 401
   \<and> snd (updatePost sample_env (mk_request id_a None []) db_a) = db_a
   \<and> status (fst (updatePost sample_env (mk_request id_b (Some alice) []) db_a)) = 404
   \<and> snd (updatePost sample_env (mk_request id_b (Some alice) []) db_a) = db_a"
proof -
  let ?r1 = "mk_request id_a None []"
  let ?r2 = "mk_request id_b (Some alice) []"
  have v1: "isValidObjectId sample_env (params_id ?r1)"
    by (simp add: mk_request_def sample_env_sel hex24_id_a)
  have v2: "isValidObjectId sample_env (params_id ?r2)"
    by (simp add: mk_request_def sample_env_sel hex24_id_b)
  have h1: "caller ?r1 = None \<and> db_a (params_id ?r1) \<noteq> None"
    by (simp add: mk_request_def db_a_def)
  have h2: "db_a (params_id ?r2) = None"
    using id_a_neq_id_b by (auto simp: mk_request_def db_a_def)
  show ?thesis
    using C2_update_401_or_404 [of sample_env ?r1 db_a, OF v1]
      C2_update_401_or_404 [of sample_env ?r2 db_a, OF v2] h1 h2
    by simp
qed

text \<open>
  C10. For a well-formed id and a request with no caller attached, update and
  delete answer 404 when no post has that id, and 401 when one has: the lookup
  comes before the authentication check, so the status tells an unauthenticated
  caller whether the id exists. Nothing is written either way.
\<close>

theorem C10_lookup_before_authentication:
  assumes "isValidObjectId env (params_id req)"
    and "caller req = None"
  shows "(db (params_id req) = None \<longrightarrow>
            updatePost env req db = (respond 404 (Error ''Post not found''), db)
          \<and> deletePost env req db = (respond 404 (Error ''Post not found''), db)
          \<and> status (fst (updatePost env req db)) = 404
          \<and> status (fst (deletePost env req db)) = 404)
       \<and> (db (params_id req) \<noteq> None \<longrightarrow>
            updatePost env req db = (respond 401 (Error ''Unauthorized''), db)
          \<and> deletePost env req db = (respond 401 (Error ''Unauthorized''), db)
          \<and> status (fst (updatePost env req db)) = 401
          \<and> status (fst (deletePost env req db)) = 401)"
  using assms
  by (auto simp: updatePost_absent updatePost_unauthenticated
      deletePost_absent deletePost_unauthenticated status_respond)

theorem C10_lookup_before_authentication_witness:
  "status (fst (updatePost sample_env (mk_request id_b None []) Map.empty)) = 404
   \<and> status (fst (deletePost sample_env (mk_request id_b None []) Map.empty)) = 404
   \<and> status (fst (updatePost sample_env (mk_request id_b None []) [id_b \<mapsto> post_a])) = 401
   \<and> status (fst (deletePost sample_env (mk_request id_b None []) [id_b \<mapsto> post_a])) = 401"
proof -
  let ?req = "mk_request id_b None []"
  have v: "isValidObjectId sample_env (params_id ?req)"
    by (simp add: mk_request_def sample_env_sel hex24_id_b)
  have c: "caller ?req = None"
    by (simp add: mk_request_def)
  have a: "Map.empty (params_id ?req) = (None :: post option)"
    by simp
  have e: "[id_b \<mapsto> post_a] (params_id ?req) \<noteq> None"
    by (simp add: mk_request_def)
  from C10_lookup_before_authentication [of sample_env ?req Map.empty, OF v c] a
  have n: "status (fst (updatePost sample_env ?req Map.empty)) = 404
      \<and> status (fst (deletePost sample_env ?req Map.empty)) = 404"
    by blast
  from C10_lookup_before_authentication [of sample_env ?req "[id_b \<mapsto> post_a]", OF v c] e
  have y: "status (fst (updatePost sample_env ?req [id_b \<mapsto> post_a])) = 401
      \<and> status (fst (deletePost sample_env ?req [id_b \<mapsto> post_a])) = 401"
    by blast
  show ?thesis
    using n y by blast
qed

section \<open>Delete\<close>

text \<open>
  C9. For a well-formed id: a delete of an id the store does not hold is
  answered 404 and writes nothing; and when the post exists and the caller is
  its author, the delete is answered 200 and removes that document only, after
  which any second delete of the same id is answered 404 and writes nothing.
\<close>

theorem C9_delete_absent_and_twice:
  assumes "isValidObjectId env (params_id req)"
  shows "(db (params_id req) = None \<longrightarrow>
            status (fst (deletePost env req db)) = 404 \<and> snd (deletePost env req db) = db)
       \<and> (\<forall>p u req2.
            db (params_id req) = Some p \<and> caller req = Some u \<and> user_id u = author p
            \<and> params_id req2 = params_id req \<longrightarrow>
              status (fst (deletePost env req db)) = 200
            \<and> snd (deletePost env req db) = db(params_id req := None)
            \<and> status (fst (deletePost env req2 (snd (deletePost env req db)))) = 404
            \<and> snd (deletePost env req2 (snd (deletePost env req db)))
                = snd (deletePost env req db))"
proof (intro conjI impI allI)
  assume "db (params_id req) = None"
  then show "status (fst (deletePost env req db)) = 404"
    and "snd (deletePost env req db) = db"
    using assms by (simp_all add: deletePost_absent status_respond)
next
  fix p :: post and u :: user and req2 :: request
  assume h: "db (params_id req) = Some p \<and> caller req = Some u \<and> user_id u = author p
    \<and> params_id req2 = params_id req"
  then have nf: "\<not> forbidden u p"
    by (simp add: forbidden_def)
  have first: "deletePost env req db =
      (respond 200 (Message ''Post deleted''), db(params_id req := None))"
    using assms h nf by (simp add: deletePost_allowed)
  have v2: "isValidObjectId env (params_id req2)"
    using assms h by simp
  have second: "deletePost env req2 (db(params_id req := None)) =
      (respond 404 (Error ''Post not found''), db(params_id req := None))"
    using v2 h by (simp add: deletePost_absent)
  show "status (fst (deletePost env req db)) = 200"
    and "snd (deletePost env req db) = db(params_id req := None)"
    and "status (fst (deletePost env req2 (snd (deletePost env req db)))) = 404"
    and "snd (deletePost env req2 (snd (deletePost env req db))) = snd (deletePost env req db)"
    using first second by (simp_all add: status_respond)
qed

theorem C9_delete_absent_and_twice_witness:
  "status (fst (deletePost sample_env (mk_request id_b (Some alice) []) db_a)) = 404
   \<and> snd (deletePost sample_env (mk_request id_b (Some alice) []) db_a) = db_a
   \<and> status (fst (deletePost sample_env (mk_request id_a (Some alice) []) db_a)) = 200
   \<and> snd (deletePost sample_env (mk_request id_a (Some alice) []) db_a) id_a = None
   \<and> status (fst (deletePost sample_env (mk_request id_a (Some alice) [])
        (snd (deletePost sample_env (mk_request id_a (Some alice) []) db_a)))) = 404"
proof -
  let ?r1 = "mk_request id_b (Some alice) []"
  let ?r2 = "mk_request id_a (Some alice) []"
  have v1: "isValidObjectId sample_env (params_id ?r1)"
    by (simp add: mk_request_def sample_env_sel hex24_id_b)
  have v2: "isValidObjectId sample_env (params_id ?r2)"
    by (simp add: mk_request_def sample_env_sel hex24_id_a)
  have h1: "db_a (params_id ?r1) = None"
    using id_a_neq_id_b by (auto simp: mk_request_def db_a_def)
  have h2: "db_a (params_id ?r2) = Some post_a \<and> caller ?r2 = Some alice
      \<and> user_id alice = author post_a \<and> params_id ?r2 = params_id ?r2"
    by (simp add: mk_request_def db_a_def alice_def post_a_def)
  from C9_delete_absent_and_twice [of sample_env ?r1 db_a, OF v1] h1
  have a: "status (fst (deletePost sample_env ?r1 db_a)) = 404
      \<and> snd (deletePost sample_env ?r1 db_a) = db_a"
    by blast
  from C9_delete_absent_and_twice [of sample_env ?r2 db_a, OF v2] h2
  have b: "status (fst (deletePost sample_env ?r2 db_a)) = 200
      \<and> snd (deletePost sample_env ?r2 db_a) = db_a(params_id ?r2 := None)
      \<and> status (fst (deletePost sample_env ?r2 (snd (deletePost sample_env ?r2 db_a)))) = 404"
    by blast
  from b have g: "snd (deletePost sample_env ?r2 db_a) id_a = None"
    by (simp add: mk_request_def)
  show ?thesis
    using a b g by blast
qed

section \<open>Create: required fields\<close>

text \<open>
  C3. A create request in which one of \<open>title\<close>, \<open>content\<close>, \<open>category\<close>, \<open>seo\<close> is
  missing (the field reads as \<open>undefined\<close>) is answered 400 with the message
  naming the required fields, and the store is unchanged, whatever the other
  fields, the caller and the environment are.
\<close>

theorem C3_missing_required_field:
  assumes "k \<in> {''title'', ''content'', ''category'', ''seo''}"
    and "field (body req) k = JUndefined"
  shows "addPost env req db =
           (respond 400 (Error ''title, content, category and seo are required''), db)
       \<and> status (fst (addPost env req db)) = 400
       \<and> snd (addPost env req db) = db"
proof -
  have "\<not> truthy (field (body req) ''title'') \<or> \<not> truthy (field (body req) ''content'')
      \<or> \<not> truthy (field (body req) ''category'') \<or> \<not> truthy (field (body req) ''seo'')"
    using assms by auto
  then have "addPost env req db =
      (respond 400 (Error ''title, content, category and seo are required''), db)"
    unfolding addPost_def Let_def by (simp only: if_True)
  then show ?thesis
    by (simp add: status_respond)
qed

theorem C3_missing_required_field_witness:
  "field [(''title'', JStr ''Hello World''), (''content'', JStr ''...''),
          (''category'', JStr ''64f1a2b3c4d5e6f708192a10'')] ''seo'' = JUndefined
   \<and> status (fst (addPost sample_env
        (mk_request [] (Some alice)
           [(''title'', JStr ''Hello World''), (''content'', JStr ''...''),
            (''category'', JStr ''64f1a2b3c4d5e6f708192a10'')]) db_a)) = 400
   \<and> snd (addPost sample_env
        (mk_request [] (Some alice)
           [(''title'', JStr ''Hello World''), (''content'', JStr ''...''),
            (''category'', JStr ''64f1a2b3c4d5e6f708192a10'')]) db_a) = db_a"
proof -
  let ?b = "[(''title'', JStr ''Hello World''), (''content'', JStr ''...''),
             (''category'', JStr ''64f1a2b3c4d5e6f708192a10'')]"
  let ?req = "mk_request [] (Some alice) ?b"
  have k: "''seo'' \<in> {''title'', ''content'', ''category'', ''seo''}"
    by simp
  have m: "field ?b ''seo'' = JUndefined"
    by (simp add: field_def)
  have m': "field (body ?req) ''seo'' = JUndefined"
    using m by (simp add: mk_request_def)
  show ?thesis
    using C3_missing_required_field [of "''seo''" ?req sample_env db_a, OF k m'] m
    by blast
qed

section \<open>Case analysis of the handlers\<close>

text \<open>
  What each block of the handlers returns, and the two shapes a call of
  \<open>addPost\<close> or \<open>updatePost\<close> can take: an error response with the store
  untouched, or the success response with one document written.
\<close>

lemma parsedTags_Inl: "parsedTags env tg = Inl r \<Longrightarrow> r = respond 400 (Error ''Invalid tags JSON'')"
  by (auto simp: parsedTags_def split: if_splits jsval.splits option.splits)

lemma parsedSeo_Inl: "parsedSeo env se = Inl r \<Longrightarrow> r = respond 400 (Error ''Invalid SEO JSON'')"
  by (auto simp: parsedSeo_def split: jsval.splits option.splits)



lemma addPost_cases:
  "(status (fst (addPost env req db)) = 400 \<and> snd (addPost env req db) = db)
   \<or> (\<exists>fs pt ps oid.
        truthy (field (body req) ''title'') \<and> truthy (field (body req) ''content'')
      \<and> truthy (field (body req) ''category'') \<and> truthy (field (body req) ''seo'')
      \<and> finalSlug env (field (body req) ''slug'') (field (body req) ''title'') = Some fs
      \<and> parsedTags env (field (body req) ''tags'') = Inr pt
      \<and> parsedSeo env (field (body req) ''seo'') = Inr ps
      \<and> db oid = None
      \<and> addPost env req db =
          (respond 201 (Doc (Some
             \<lparr>title = field (body req) ''title'', slug = JStr fs,
              content = field (body req) ''content'',
              author = author_of (caller req), category = field (body req) ''category'',
              tags = pt, seo = ps, featuredImage = file_path req,
              published = coerce_published (field (body req) ''published'')\<rparr>)),
           db(oid \<mapsto>
             \<lparr>title = field (body req) ''title'', slug = JStr fs,
              content = field (body req) ''content'',
              author = author_of (caller req), category = field (body req) ''category'',
              tags = pt, seo = ps, featuredImage = file_path req,
              published = coerce_published (field (body req) ''published'')\<rparr>)))"
  unfolding addPost_def Let_def
  by (auto simp: Post_create_def findById_def status_respond
      dest: parsedTags_Inl parsedSeo_Inl
      split: option.splits sum.splits if_splits)

lemma addPost_created:
  assumes "status (fst (addPost env req db)) = 201"
  shows "\<exists>oid p fs pt ps. db oid = None
       \<and> addPost env req db = (respond 201 (Doc (Some p)), db(oid \<mapsto> p))
       \<and> finalSlug env (field (body req) ''slug'') (field (body req) ''title'') = Some fs
       \<and> parsedTags env (field (body req) ''tags'') = Inr pt
       \<and> parsedSeo env (field (body req) ''seo'') = Inr ps
       \<and> title p = field (body req) ''title''
       \<and> slug p = JStr fs
       \<and> content p = field (body req) ''content''
       \<and> author p = author_of (caller req)
       \<and> category p = field (body req) ''category''
       \<and> tags p = pt
       \<and> seo p = ps
       \<and> featuredImage p = file_path req
       \<and> published p = coerce_published (field (body req) ''published'')"
proof -
  from addPost_cases [of env req db] assms
  obtain fs pt ps oid where
    fs: "finalSlug env (field (body req) ''slug'') (field (body req) ''title'') = Some fs"
    and pt: "parsedTags env (field (body req) ''tags'') = Inr pt"
    and ps: "parsedSeo env (field (body req) ''seo'') = Inr ps"
    and fresh: "db oid = None"
    and eq: "addPost env req db =
          (respond 201 (Doc (Some
             \<lparr>title = field (body req) ''title'', slug = JStr fs,
              content = field (body req) ''content'',
              author = author_of (caller req), category = field (body req) ''category'',
              tags = pt, seo = ps, featuredImage = file_path req,
              published = coerce_published (field (body req) ''published'')\<rparr>)),
           db(oid \<mapsto>
             \<lparr>title = field (body req) ''title'', slug = JStr fs,
              content = field (body req) ''content'',
              author = author_of (caller req), category = field (body req) ''category'',
              tags = pt, seo = ps, featuredImage = file_path req,
              published = coerce_published (field (body req) ''published'')\<rparr>))"
    by auto
  show ?thesis
    unfolding eq
    by (intro exI [of _ oid] exI [of _ "\<lparr>title = field (body req) ''title'', slug = JStr fs,
              content = field (body req) ''content'',
              author = author_of (caller req), category = field (body req) ''category'',
              tags = pt, seo = ps, featuredImage = file_path req,
              published = coerce_published (field (body req) ''published'')\<rparr>"]
          exI [of _ fs] exI [of _ pt] exI [of _ ps])
      (simp add: fs pt ps fresh)
qed

lemma assign_scalars_title:
  "title (assign_scalars b e) = (if truthy (field b ''title'') then field b ''title'' else title e)"
  by (simp add: assign_scalars_def Let_def)

lemma assign_scalars_slug:
  "slug (assign_scalars b e) = (if truthy (field b ''slug'') then field b ''slug'' else slug e)"
  by (simp add: assign_scalars_def Let_def)

lemma assign_scalars_content:
  "content (assign_scalars b e) = (if truthy (field b ''content'') then field b ''content'' else content e)"
  by (simp add: assign_scalars_def Let_def)

lemma assign_scalars_category:
  "category (assign_scalars b e) = (if truthy (field b ''category'') then field b ''category'' else category e)"
  by (simp add: assign_scalars_def Let_def)

lemma assign_scalars_rest:
  "author (assign_scalars b e) = author e"
  "tags (assign_scalars b e) = tags e"
  "seo (assign_scalars b e) = seo e"
  "featuredImage (assign_scalars b e) = featuredImage e"
  "published (assign_scalars b e) = published e"
  by (simp_all add: assign_scalars_def Let_def)

lemma assign_tags_Inl:
  "assign_tags env tg e = Inl r \<Longrightarrow> r = respond 400 (Error ''Invalid tags JSON'')"
  by (auto simp: assign_tags_def split: if_splits jsval.splits option.splits)

lemma assign_seo_Inl:
  "assign_seo env se e = Inl r \<Longrightarrow> r = respond 400 (Error ''Invalid SEO JSON'')"
  by (auto simp: assign_seo_def split: if_splits jsval.splits option.splits)

lemma assign_tags_Inr:
  assumes "assign_tags env tg e = Inr e'"
  shows "e' = e\<lparr>tags := tags e'\<rparr>"
    and "\<not> truthy tg \<Longrightarrow> tags e' = tags e"
    and "truthy tg \<Longrightarrow> tg = JStr s \<Longrightarrow> JSON_parse env s = Some (tags e')"
    and "truthy tg \<Longrightarrow> \<forall>s. tg \<noteq> JStr s \<Longrightarrow> tags e' = tg"
  using assms
  by (auto simp: assign_tags_def split: if_splits jsval.splits option.splits)

lemma assign_seo_Inr:
  assumes "assign_seo env se e = Inr e'"
  shows "e' = e\<lparr>seo := seo e'\<rparr>"
    and "\<not> truthy se \<Longrightarrow> seo e' = seo e"
    and "truthy se \<Longrightarrow> se = JStr s \<Longrightarrow> JSON_parse env s = Some (seo e')"
    and "truthy se \<Longrightarrow> \<forall>s. se \<noteq> JStr s \<Longrightarrow> seo e' = se"
  using assms
  by (auto simp: assign_seo_def split: if_splits jsval.splits option.splits)

lemma assign_tags_frame:
  assumes "assign_tags env tg e = Inr e'"
  shows "title e' = title e" "slug e' = slug e" "content e' = content e"
    "author e' = author e" "category e' = category e" "seo e' = seo e"
    "featuredImage e' = featuredImage e" "published e' = published e"
  using assms
  by (auto simp: assign_tags_def split: if_splits jsval.splits option.splits)

lemma assign_seo_frame:
  assumes "assign_seo env se e = Inr e'"
  shows "title e' = title e" "slug e' = slug e" "content e' = content e"
    "author e' = author e" "category e' = category e" "tags e' = tags e"
    "featuredImage e' = featuredImage e" "published e' = published e"
  using assms
  by (auto simp: assign_seo_def split: if_splits jsval.splits option.splits)



lemma assign_published_fields:
  "published (assign_published pu e) = (if pu \<noteq> JUndefined then coerce_published pu else published e)"
  "title (assign_published pu e) = title e" "slug (assign_published pu e) = slug e"
  "content (assign_published pu e) = content e" "author (assign_published pu e) = author e"
  "category (assign_published pu e) = category e" "tags (assign_published pu e) = tags e"
  "seo (assign_published pu e) = seo e"
  "featuredImage (assign_published pu e) = featuredImage e"
  by (simp_all add: assign_published_def)

lemma assign_image_fields:
  "featuredImage (assign_image f e) =
     (case f of None \<Rightarrow> featuredImage e | Some x \<Rightarrow> if x \<noteq> [] then Some x else featuredImage e)"
  "title (assign_image f e) = title e" "slug (assign_image f e) = slug e"
  "content (assign_image f e) = content e" "author (assign_image f e) = author e"
  "category (assign_image f e) = category e" "tags (assign_image f e) = tags e"
  "seo (assign_image f e) = seo e" "published (assign_image f e) = published e"
  by (simp_all add: assign_image_def split: option.splits)

lemma assign_tags_parses:
  assumes "\<forall>s. tg = JStr s \<and> s \<noteq> [] \<longrightarrow> JSON_parse env s \<noteq> None"
  shows "\<exists>e'. assign_tags env tg e = Inr e'"
  using assms
  by (cases tg) (auto simp: assign_tags_def split: option.splits)

lemma assign_seo_parses:
  assumes "\<forall>s. se = JStr s \<and> s \<noteq> [] \<longrightarrow> JSON_parse env s \<noteq> None"
  shows "\<exists>e'. assign_seo env se e = Inr e'"
  using assms
  by (cases se) (auto simp: assign_seo_def split: option.splits)

lemma updatePost_succeeds:
  assumes "isValidObjectId env (params_id req)"
    and "db (params_id req) = Some p"
    and "caller req = Some u"
    and "\<not> forbidden u p"
    and "assign_tags env (field (body req) ''tags'') (assign_scalars (body req) p) = Inr e1"
    and "assign_seo env (field (body req) ''seo'') e1 = Inr e2"
    and "save_ok env db (params_id req)
           (assign_image (file_path req) (assign_published (field (body req) ''published'') e2))"
  shows "updatePost env req db =
      (respond 200 (Doc (Some (assign_image (file_path req)
          (assign_published (field (body req) ''published'') e2)))),
       db(params_id req \<mapsto> assign_image (file_path req)
          (assign_published (field (body req) ''published'') e2)))"
  using assms
  by (simp add: updatePost_def Let_def save_def findById_def)

lemma updatePost_authorized_cases:
  assumes "isValidObjectId env (params_id req)"
    and "db (params_id req) = Some p"
    and "caller req = Some u"
    and "\<not> forbidden u p"
  shows "(status (fst (updatePost env req db)) = 400 \<and> snd (updatePost env req db) = db)
       \<or> (\<exists>e1 e2.
            assign_tags env (field (body req) ''tags'') (assign_scalars (body req) p) = Inr e1
          \<and> assign_seo env (field (body req) ''seo'') e1 = Inr e2
          \<and> updatePost env req db =
              (respond 200 (Doc (Some (assign_image (file_path req)
                  (assign_published (field (body req) ''published'') e2)))),
               db(params_id req \<mapsto> assign_image (file_path req)
                  (assign_published (field (body req) ''published'') e2))))"
  using assms
  unfolding updatePost_def Let_def
  by (auto simp: save_def findById_def status_respond
      dest: assign_tags_Inl assign_seo_Inl
      split: option.splits sum.splits if_splits)

lemma updatePost_store:
  "(status (fst (updatePost env req db)) \<noteq> 200 \<and> snd (updatePost env req db) = db)
   \<or> (\<exists>p u e1 e2.
        isValidObjectId env (params_id req) \<and> db (params_id req) = Some p
      \<and> caller req = Some u \<and> \<not> forbidden u p
      \<and> assign_tags env (field (body req) ''tags'') (assign_scalars (body req) p) = Inr e1
      \<and> assign_seo env (field (body req) ''seo'') e1 = Inr e2
      \<and> updatePost env req db =
              (respond 200 (Doc (Some (assign_image (file_path req)
                  (assign_published (field (body req) ''published'') e2)))),
               db(params_id req \<mapsto> assign_image (file_path req)
                  (assign_published (field (body req) ''published'') e2))))"
  unfolding updatePost_def Let_def
  by (auto simp: save_def findById_def status_respond
      dest: assign_tags_Inl assign_seo_Inl
      split: option.splits sum.splits if_splits)

section \<open>The handlers on the samples\<close>

lemma hello_fields:
  "field hello_body ''title'' = JStr ''Hello World''"
  "truthy (field hello_body ''content'')"
  "truthy (field hello_body ''category'')"
  "field hello_body ''seo'' = JObj [(''title'', JStr ''x'')]"
  "\<not> truthy (field hello_body ''slug'')"
  "\<not> truthy (field hello_body ''tags'')"
  by (simp_all add: field_def hello_body_def)

lemma addPost_sample_eval:
  assumes "field b ''title'' = JStr ''Hello World''"
    and "truthy (field b ''content'')" and "truthy (field b ''category'')"
    and "field b ''seo'' = JObj kv"
    and "\<not> truthy (field b ''slug'')" and "\<not> truthy (field b ''tags'')"
    and "db id_b = None"
  shows "addPost sample_env (mk_request oid c b) db =
      (respond 201 (Doc (Some
         \<lparr>title = JStr ''Hello World'', slug = JStr ''hello-world'',
          content = field b ''content'', author = author_of c,
          category = field b ''category'', tags = JArr [], seo = JObj kv,
          featuredImage = None,
          published = coerce_published (field b ''published'')\<rparr>)),
       db(id_b \<mapsto>
         \<lparr>title = JStr ''Hello World'', slug = JStr ''hello-world'',
          content = field b ''content'', author = author_of c,
          category = field b ''category'', tags = JArr [], seo = JObj kv,
          featuredImage = None,
          published = coerce_published (field b ''published'')\<rparr>))"
  using assms
  by (simp add: addPost_def Let_def mk_request_def finalSlug_def parsedTags_def parsedSeo_def
      Post_create_def findById_def sample_env_sel sample_slug_hello)

lemma addPost_hello_201:
  "status (fst (addPost sample_env (mk_request oid c hello_body) Map.empty)) = 201"
  by (simp add: addPost_sample_eval [OF hello_fields] status_respond)

lemma updatePost_alice_eval:
  assumes "assign_tags sample_env (field b ''tags'') (assign_scalars b post_a) = Inr e1"
    and "assign_seo sample_env (field b ''seo'') e1 = Inr e2"
  shows "updatePost sample_env (mk_request id_a (Some alice) b) db_a =
      (respond 200 (Doc (Some (assign_image None (assign_published (field b ''published'') e2)))),
       db_a(id_a \<mapsto> assign_image None (assign_published (field b ''published'') e2)))"
  using assms
  by (simp add: updatePost_def Let_def mk_request_def db_a_def findById_def
      sample_env_sel hex24_id_a forbidden_def alice_def post_a_def save_def)

section \<open>Malformed JSON in tags or seo\<close>




section \<open>Partial update\<close>

text \<open>
  C5, as stated, at concrete requests by the post's author. A \<open>title\<close> that is
  present in the body as the empty string does not overwrite the stored title:
  the update is answered 200 and the title is the old one. And a present,
  non-empty \<open>title\<close> does not overwrite either when \<open>tags\<close> in the same body is
  malformed: the update is answered 400 and nothing is saved.
\<close>

theorem C5_falsy_field_counterexample:
  "map_of [(''title'', JStr [])] ''title'' = Some (JStr [])
   \<and> status (fst (updatePost sample_env
        (mk_request id_a (Some alice) [(''title'', JStr [])]) db_a)) = 200
   \<and> map_option title (snd (updatePost sample_env
        (mk_request id_a (Some alice) [(''title'', JStr [])]) db_a) id_a)
       = Some (JStr ''First post'')
   \<and> JStr ''First post'' \<noteq> JStr []
   \<and> status (fst (updatePost sample_env
        (mk_request id_a (Some alice) [(''title'', JStr ''Other''), (''tags'', JStr ''{bad'')])
        db_a)) = 400
   \<and> map_option title (snd (updatePost sample_env
        (mk_request id_a (Some alice) [(''title'', JStr ''Other''), (''tags'', JStr ''{bad'')])
        db_a) id_a)
       = Some (JStr ''First post'')"
proof -
  let ?b = "[(''title'', JStr [])]"
  let ?c = "[(''title'', JStr ''Other''), (''tags'', JStr ''{bad'')]"
  have a1: "assign_tags sample_env (field ?b ''tags'') (assign_scalars ?b post_a) = Inr post_a"
    by (simp add: assign_tags_def assign_scalars_def field_def)
  have a2: "assign_seo sample_env (field ?b ''seo'') post_a = Inr post_a"
    by (simp add: assign_seo_def field_def)
  have u: "status (fst (updatePost sample_env (mk_request id_a (Some alice) ?b) db_a)) = 200"
    "map_option title (snd (updatePost sample_env (mk_request id_a (Some alice) ?b) db_a) id_a)
       = Some (JStr ''First post'')"
    by (simp_all add: updatePost_alice_eval [OF a1 a2] status_respond
        assign_image_fields assign_published_fields post_a_def)
  have bad: "assign_tags sample_env (field ?c ''tags'') (assign_scalars ?c post_a)
      = Inl (respond 400 (Error ''Invalid tags JSON''))"
    by (simp add: assign_tags_def field_def sample_env_sel sample_parse_def)
  have v: "updatePost sample_env (mk_request id_a (Some alice) ?c) db_a
      = (respond 400 (Error ''Invalid tags JSON''), db_a)"
    using bad
    by (simp add: updatePost_def Let_def mk_request_def db_a_def findById_def
        sample_env_sel hex24_id_a forbidden_def alice_def post_a_def)
  have w: "status (fst (updatePost sample_env (mk_request id_a (Some alice) ?c) db_a)) = 400"
    "map_option title (snd (updatePost sample_env (mk_request id_a (Some alice) ?c) db_a) id_a)
       = Some (JStr ''First post'')"
    by (simp_all add: v status_respond) (simp add: db_a_def post_a_def)
  have m: "map_of ?b ''title'' = Some (JStr [])" "JStr ''First post'' \<noteq> JStr []"
    by simp_all
  show ?thesis
    using m u w by blast
qed

text \<open>
  C5, amended. For an update of an existing post by its author or an admin:
  the post stays in the store, no other document changes, and the author never
  changes; a field that is omitted from the body keeps its stored value, and so
  does a \<open>title\<close>, \<open>slug\<close>, \<open>content\<close>, \<open>category\<close>, \<open>tags\<close> or \<open>seo\<close> that is
  present with a falsy value (an omitted field reads as \<open>undefined\<close>, which is
  falsy); and when the update succeeds (200), each of those six fields present
  with a truthy value overwrites the stored value (a string \<open>tags\<close> or \<open>seo\<close> by
  its parsed JSON), a present \<open>published\<close> overwrites it by its coercion, and
  an uploaded file's path overwrites \<open>featuredImage\<close>.
\<close>

theorem C5_partial_update:
  assumes "isValidObjectId env (params_id req)"
    and "db (params_id req) = Some p"
    and "caller req = Some u"
    and "role u = ''admin'' \<or> author p = user_id u"
  shows "\<exists>p'. snd (updatePost env req db) (params_id req) = Some p'
       \<and> (\<forall>k. k \<noteq> params_id req \<longrightarrow> snd (updatePost env req db) k = db k)
       \<and> author p' = author p
       \<and> (\<not> truthy (field (body req) ''title'') \<longrightarrow> title p' = title p)
       \<and> (\<not> truthy (field (body req) ''slug'') \<longrightarrow> slug p' = slug p)
       \<and> (\<not> truthy (field (body req) ''content'') \<longrightarrow> content p' = content p)
       \<and> (\<not> truthy (field (body req) ''category'') \<longrightarrow> category p' = category p)
       \<and> (\<not> truthy (field (body req) ''tags'') \<longrightarrow> tags p' = tags p)
       \<and> (\<not> truthy (field (body req) ''seo'') \<longrightarrow> seo p' = seo p)
       \<and> (field (body req) ''published'' = JUndefined \<longrightarrow> published p' = published p)
       \<and> (file_path req = None \<longrightarrow> featuredImage p' = featuredImage p)
       \<and> (status (fst (updatePost env req db)) = 200 \<longrightarrow>
            (truthy (field (body req) ''title'') \<longrightarrow> title p' = field (body req) ''title'')
          \<and> (truthy (field (body req) ''slug'') \<longrightarrow> slug p' = field (body req) ''slug'')
          \<and> (truthy (field (body req) ''content'') \<longrightarrow> content p' = field (body req) ''content'')
          \<and> (truthy (field (body req) ''category'') \<longrightarrow>
                category p' = field (body req) ''category'')
          \<and> (truthy (field (body req) ''tags'') \<longrightarrow>
                (\<forall>s. field (body req) ''tags'' = JStr s \<longrightarrow> JSON_parse env s = Some (tags p'))
              \<and> ((\<forall>s. field (body req) ''tags'' \<noteq> JStr s) \<longrightarrow> tags p' = field (body req) ''tags''))
          \<and> (truthy (field (body req) ''seo'') \<longrightarrow>
                (\<forall>s. field (body req) ''seo'' = JStr s \<longrightarrow> JSON_parse env s = Some (seo p'))
              \<and> ((\<forall>s. field (body req) ''seo'' \<noteq> JStr s) \<longrightarrow> seo p' = field (body req) ''seo''))
          \<and> (field (body req) ''published'' \<noteq> JUndefined \<longrightarrow>
                published p' = coerce_published (field (body req) ''published''))
          \<and> (\<forall>f. file_path req = Some f \<and> f \<noteq> [] \<longrightarrow> featuredImage p' = Some f))"
    (is "\<exists>p'. ?P p'")
proof -
  have nf: "\<not> forbidden u p"
    using assms(4) by (auto simp: forbidden_def)
  from updatePost_authorized_cases [of env req db p u, OF assms(1,2,3) nf]
  show ?thesis
  proof
    assume "status (fst (updatePost env req db)) = 400 \<and> snd (updatePost env req db) = db"
    then have st: "status (fst (updatePost env req db)) \<noteq> 200"
      and sn: "snd (updatePost env req db) = db"
      by simp_all
    have same: "?P p"
      unfolding sn using assms(2) st by (intro conjI impI allI) simp_all
    show ?thesis
      by (rule exI [of _ p]) (rule same)
  next
    assume "\<exists>e1 e2.
            assign_tags env (field (body req) ''tags'') (assign_scalars (body req) p) = Inr e1
          \<and> assign_seo env (field (body req) ''seo'') e1 = Inr e2
          \<and> updatePost env req db =
              (respond 200 (Doc (Some (assign_image (file_path req)
                  (assign_published (field (body req) ''published'') e2)))),
               db(params_id req \<mapsto> assign_image (file_path req)
                  (assign_published (field (body req) ''published'') e2)))"
    then obtain e1 e2 where
      t: "assign_tags env (field (body req) ''tags'') (assign_scalars (body req) p) = Inr e1"
      and s: "assign_seo env (field (body req) ''seo'') e1 = Inr e2"
      and eq: "updatePost env req db =
              (respond 200 (Doc (Some (assign_image (file_path req)
                  (assign_published (field (body req) ''published'') e2)))),
               db(params_id req \<mapsto> assign_image (file_path req)
                  (assign_published (field (body req) ''published'') e2)))"
      by blast
    let ?p' = "assign_image (file_path req) (assign_published (field (body req) ''published'') e2)"
    note fr = assign_image_fields assign_published_fields
      assign_seo_frame [OF s] assign_tags_frame [OF t]
    have ti: "title ?p' = title (assign_scalars (body req) p)"
      and sl: "slug ?p' = slug (assign_scalars (body req) p)"
      and co: "content ?p' = content (assign_scalars (body req) p)"
      and ca: "category ?p' = category (assign_scalars (body req) p)"
      and au: "author ?p' = author p"
      and tg: "tags ?p' = tags e1"
      and se: "seo ?p' = seo e2"
      and pu: "published ?p' = (if field (body req) ''published'' \<noteq> JUndefined
                 then coerce_published (field (body req) ''published'') else published p)"
      and im: "featuredImage ?p' = (case file_path req of None \<Rightarrow> featuredImage p
                 | Some x \<Rightarrow> if x \<noteq> [] then Some x else featuredImage p)"
      by (simp_all add: fr assign_scalars_rest split: option.splits)
    have tg0: "\<not> truthy (field (body req) ''tags'') \<longrightarrow> tags e1 = tags p"
      using assign_tags_Inr(2) [OF t] by (simp add: assign_scalars_rest)
    have tg1: "truthy (field (body req) ''tags'') \<longrightarrow>
        (\<forall>s. field (body req) ''tags'' = JStr s \<longrightarrow> JSON_parse env s = Some (tags e1))
      \<and> ((\<forall>s. field (body req) ''tags'' \<noteq> JStr s) \<longrightarrow> tags e1 = field (body req) ''tags'')"
      using assign_tags_Inr(3,4) [OF t] by blast
    have se0: "\<not> truthy (field (body req) ''seo'') \<longrightarrow> seo e2 = seo p"
      using assign_seo_Inr(2) [OF s] by (simp add: assign_tags_frame [OF t] assign_scalars_rest)
    have se1: "truthy (field (body req) ''seo'') \<longrightarrow>
        (\<forall>s. field (body req) ''seo'' = JStr s \<longrightarrow> JSON_parse env s = Some (seo e2))
      \<and> ((\<forall>s. field (body req) ''seo'' \<noteq> JStr s) \<longrightarrow> seo e2 = field (body req) ''seo'')"
      using assign_seo_Inr(3,4) [OF s] by blast
    have sn: "snd (updatePost env req db) = db(params_id req \<mapsto> ?p')"
      by (simp add: eq)
    have saved: "?P ?p'"
      unfolding sn
    proof (intro conjI impI allI)
      show "(db(params_id req \<mapsto> ?p')) (params_id req) = Some ?p'"
        by simp
      show "(db(params_id req \<mapsto> ?p')) k = db k" if "k \<noteq> params_id req" for k
        using that by simp
      show "author ?p' = author p"
        by (rule au)
      show "title ?p' = title p" if "\<not> truthy (field (body req) ''title'')"
        using that by (simp only: ti assign_scalars_title if_False)
      show "slug ?p' = slug p" if "\<not> truthy (field (body req) ''slug'')"
        using that by (simp only: sl assign_scalars_slug if_False)
      show "content ?p' = content p" if "\<not> truthy (field (body req) ''content'')"
        using that by (simp only: co assign_scalars_content if_False)
      show "category ?p' = category p" if "\<not> truthy (field (body req) ''category'')"
        using that by (simp only: ca assign_scalars_category if_False)
      show "tags ?p' = tags p" if "\<not> truthy (field (body req) ''tags'')"
        using that tg0 unfolding tg by blast
      show "seo ?p' = seo p" if "\<not> truthy (field (body req) ''seo'')"
        using that se0 unfolding se by blast
      show "published ?p' = published p" if "field (body req) ''published'' = JUndefined"
        using that unfolding pu by simp
      show "featuredImage ?p' = featuredImage p" if "file_path req = None"
        using that unfolding im by simp
      show "title ?p' = field (body req) ''title''" if "truthy (field (body req) ''title'')"
        using that by (simp only: ti assign_scalars_title if_True)
      show "slug ?p' = field (body req) ''slug''" if "truthy (field (body req) ''slug'')"
        using that by (simp only: sl assign_scalars_slug if_True)
      show "content ?p' = field (body req) ''content''" if "truthy (field (body req) ''content'')"
        using that by (simp only: co assign_scalars_content if_True)
      show "category ?p' = field (body req) ''category''"
        if "truthy (field (body req) ''category'')"
        using that by (simp only: ca assign_scalars_category if_True)
      show "JSON_parse env s = Some (tags ?p')"
        if "truthy (field (body req) ''tags'')" "field (body req) ''tags'' = JStr s" for s
        using that tg1 unfolding tg by blast
      show "tags ?p' = field (body req) ''tags''"
        if "truthy (field (body req) ''tags'')" "\<forall>s. field (body req) ''tags'' \<noteq> JStr s"
        using that tg1 unfolding tg by blast
      show "JSON_parse env s = Some (seo ?p')"
        if "truthy (field (body req) ''seo'')" "field (body req) ''seo'' = JStr s" for s
        using that se1 unfolding se by blast
      show "seo ?p' = field (body req) ''seo''"
        if "truthy (field (body req) ''seo'')" "\<forall>s. field (body req) ''seo'' \<noteq> JStr s"
        using that se1 unfolding se by blast
      show "published ?p' = coerce_published (field (body req) ''published'')"
        if "field (body req) ''published'' \<noteq> JUndefined"
        using that unfolding pu by simp
      show "featuredImage ?p' = Some f" if "file_path req = Some f \<and> f \<noteq> []" for f
        using that unfolding im by simp
    qed
    show ?thesis
      by (rule exI [of _ ?p']) (rule saved)
  qed
qed

theorem C5_partial_update_witness:
  "\<exists>p'. snd (updatePost sample_env
        (mk_request id_a (Some alice) [(''title'', JStr ''Second title'')]) db_a) id_a = Some p'
     \<and> title p' = JStr ''Second title''
     \<and> slug p' = slug post_a \<and> content p' = content post_a
     \<and> category p' = category post_a \<and> tags p' = tags post_a \<and> seo p' = seo post_a
     \<and> published p' = published post_a \<and> featuredImage p' = featuredImage post_a
     \<and> author p' = author post_a"
proof -
  let ?b = "[(''title'', JStr ''Second title'')]"
  let ?req = "mk_request id_a (Some alice) ?b"
  have h: "isValidObjectId sample_env (params_id ?req)"
    "db_a (params_id ?req) = Some post_a"
    "caller ?req = Some alice"
    "role alice = ''admin'' \<or> author post_a = user_id alice"
    by (simp_all add: mk_request_def sample_env_sel hex24_id_a db_a_def alice_def post_a_def)
  have a1: "assign_tags sample_env (field ?b ''tags'') (assign_scalars ?b post_a)
      = Inr (post_a\<lparr>title := JStr ''Second title''\<rparr>)"
    by (simp add: assign_tags_def assign_scalars_def field_def)
  have a2: "assign_seo sample_env (field ?b ''seo'') (post_a\<lparr>title := JStr ''Second title''\<rparr>)
      = Inr (post_a\<lparr>title := JStr ''Second title''\<rparr>)"
    by (simp add: assign_seo_def field_def)
  have ok: "status (fst (updatePost sample_env ?req db_a)) = 200"
    by (simp add: updatePost_alice_eval [OF a1 a2] status_respond)
  have b: "truthy (field (body ?req) ''title'')"
    "field (body ?req) ''title'' = JStr ''Second title''"
    "\<not> truthy (field (body ?req) ''slug'')" "\<not> truthy (field (body ?req) ''content'')"
    "\<not> truthy (field (body ?req) ''category'')" "\<not> truthy (field (body ?req) ''tags'')"
    "\<not> truthy (field (body ?req) ''seo'')" "field (body ?req) ''published'' = JUndefined"
    "file_path ?req = None" "params_id ?req = id_a"
    by (simp_all add: mk_request_def field_def)
  from C5_partial_update [of sample_env ?req db_a post_a alice, OF h]
  obtain p' where p: "snd (updatePost sample_env ?req db_a) (params_id ?req) = Some p'"
    and au: "author p' = author post_a"
    and fr: "\<not> truthy (field (body ?req) ''slug'') \<longrightarrow> slug p' = slug post_a"
      "\<not> truthy (field (body ?req) ''content'') \<longrightarrow> content p' = content post_a"
      "\<not> truthy (field (body ?req) ''category'') \<longrightarrow> category p' = category post_a"
      "\<not> truthy (field (body ?req) ''tags'') \<longrightarrow> tags p' = tags post_a"
      "\<not> truthy (field (body ?req) ''seo'') \<longrightarrow> seo p' = seo post_a"
      "field (body ?req) ''published'' = JUndefined \<longrightarrow> published p' = published post_a"
      "file_path ?req = None \<longrightarrow> featuredImage p' = featuredImage post_a"
    and ow: "status (fst (updatePost sample_env ?req db_a)) = 200 \<longrightarrow>
        (truthy (field (body ?req) ''title'') \<longrightarrow> title p' = field (body ?req) ''title'')"
    by (elim exE conjE) (rule that, (assumption | (rule impI, blast))+)
  have "snd (updatePost sample_env ?req db_a) id_a = Some p'"
    using p b(10) by simp
  moreover have "title p' = JStr ''Second title''"
    using ow ok b(1,2) by simp
  moreover have "slug p' = slug post_a" "content p' = content post_a"
    "category p' = category post_a" "tags p' = tags post_a" "seo p' = seo post_a"
    "published p' = published post_a" "featuredImage p' = featuredImage post_a"
    using fr b(3-9) by blast+
  ultimately show ?thesis
    using au by blast
qed

section \<open>The slug of a created post\<close>

text \<open>
  C6, as stated, at a concrete request: the body of the spec's example with
  \<open>slug\<close> supplied as the empty string. The create succeeds, and the stored slug
  is the one derived from the title, not the supplied value.
\<close>

theorem C6_empty_slug_counterexample:
  "field (hello_body @ [(''slug'', JStr [])]) ''slug'' = JStr []
   \<and> status (fst (addPost sample_env
        (mk_request [] (Some alice) (hello_body @ [(''slug'', JStr [])])) Map.empty)) = 201
   \<and> map_option slug (snd (addPost sample_env
        (mk_request [] (Some alice) (hello_body @ [(''slug'', JStr [])])) Map.empty) id_b)
       = Some (JStr ''hello-world'')
   \<and> JStr ''hello-world'' \<noteq> JStr []"
proof -
  let ?b = "hello_body @ [(''slug'', JStr [])]"
  have f: "field ?b ''title'' = JStr ''Hello World''"
    "truthy (field ?b ''content'')" "truthy (field ?b ''category'')"
    "field ?b ''seo'' = JObj [(''title'', JStr ''x'')]"
    "\<not> truthy (field ?b ''slug'')" "\<not> truthy (field ?b ''tags'')"
    "field ?b ''slug'' = JStr []"
    by (simp_all add: field_def hello_body_def)
  have e: "Map.empty id_b = (None :: post option)"
    by simp
  show ?thesis
    using f(7) by (simp add: addPost_sample_eval [OF f(1-6) e] status_respond)
qed

text \<open>
  C6, amended. For a create that succeeds (201), exactly one document is added
  and it is the one returned; if the request supplies a non-empty string as
  \<open>slug\<close>, the stored slug is that string verbatim; if it omits \<open>slug\<close> (or
  supplies a falsy one, such as the empty string), the stored slug is what the
  slug generator returns for the title.
\<close>

theorem C6_slug_of_created_post:
  assumes "status (fst (addPost env req db)) = 201"
  shows "\<exists>oid p. db oid = None
       \<and> snd (addPost env req db) = db(oid \<mapsto> p)
       \<and> payload (fst (addPost env req db)) = Doc (Some p)
       \<and> (\<forall>s. field (body req) ''slug'' = JStr s \<and> s \<noteq> [] \<longrightarrow> slug p = JStr s)
       \<and> (\<not> truthy (field (body req) ''slug'') \<longrightarrow>
            (\<exists>g. generateSlug env (field (body req) ''title'') = Some g \<and> slug p = JStr g))"
proof -
  from addPost_created [OF assms]
  obtain oid p fs where fresh: "db oid = None"
    and eq: "addPost env req db = (respond 201 (Doc (Some p)), db(oid \<mapsto> p))"
    and fs: "finalSlug env (field (body req) ''slug'') (field (body req) ''title'') = Some fs"
    and sl: "slug p = JStr fs"
    by blast
  have verbatim: "\<forall>s. field (body req) ''slug'' = JStr s \<and> s \<noteq> [] \<longrightarrow> fs = s"
    using fs by (auto simp: finalSlug_def js_toString_def)
  have derived: "\<not> truthy (field (body req) ''slug'') \<longrightarrow>
      generateSlug env (field (body req) ''title'') = Some fs"
    using fs by (auto simp: finalSlug_def)
  show ?thesis
    unfolding eq using fresh verbatim derived sl
    by (intro exI [of _ oid] exI [of _ p]) (simp add: respond_def)
qed

theorem C6_slug_of_created_post_witness:
  "(\<exists>oid p. snd (addPost sample_env
        (mk_request [] (Some alice) (hello_body @ [(''slug'', JStr ''my-post'')])) Map.empty)
        = Map.empty(oid \<mapsto> p)
      \<and> slug p = JStr ''my-post'')
   \<and> (\<exists>oid p. snd (addPost sample_env (mk_request [] (Some alice) hello_body) Map.empty)
        = Map.empty(oid \<mapsto> p)
      \<and> slug p = JStr ''hello-world'')"
proof -
  let ?b = "hello_body @ [(''slug'', JStr ''my-post'')]"
  let ?r1 = "mk_request [] (Some alice) ?b"
  let ?r2 = "mk_request [] (Some alice) hello_body"
  have s1: "status (fst (addPost sample_env ?r1 Map.empty)) = 201"
    by (simp add: addPost_def Let_def mk_request_def finalSlug_def parsedTags_def
        parsedSeo_def Post_create_def findById_def sample_env_sel field_def hello_body_def
        js_toString_def status_respond)
  have f1: "field (body ?r1) ''slug'' = JStr ''my-post'' \<and> ''my-post'' \<noteq> []"
    by (simp add: mk_request_def field_def hello_body_def)
  have f2: "\<not> truthy (field (body ?r2) ''slug'')"
    and g2: "generateSlug sample_env (field (body ?r2) ''title'') = Some ''hello-world''"
    by (simp_all add: mk_request_def hello_fields sample_env_sel sample_slug_hello)
  from C6_slug_of_created_post [OF s1] f1
  obtain o1 p1 where w1: "snd (addPost sample_env ?r1 Map.empty) = Map.empty(o1 \<mapsto> p1)"
    and a1: "slug p1 = JStr ''my-post''"
    by blast
  from C6_slug_of_created_post [OF addPost_hello_201 [of "[]" "Some alice"]] f2
  obtain o2 p2 g where w2: "snd (addPost sample_env ?r2 Map.empty) = Map.empty(o2 \<mapsto> p2)"
    and a2: "generateSlug sample_env (field (body ?r2) ''title'') = Some g" "slug p2 = JStr g"
    by blast
  from a2 g2 have "slug p2 = JStr ''hello-world''"
    by simp
  then show ?thesis
    using w1 a1 w2 by blast
qed

section \<open>The author of a created post\<close>

text \<open>
  C7. For a create that succeeds (201), the author of the created post is the
  caller's id when the request carries one (\<open>req.user\<close> is there and its id is not
  empty, which is the test \<open>req.user?.id\<close>), and the fixed id
  \<open>68ae1145a564344c2e6e03fb\<close> otherwise.
\<close>

theorem C7_author_of_created_post:
  assumes "status (fst (addPost env req db)) = 201"
  shows "\<exists>oid p. db oid = None
       \<and> snd (addPost env req db) = db(oid \<mapsto> p)
       \<and> payload (fst (addPost env req db)) = Doc (Some p)
       \<and> (\<forall>u. caller req = Some u \<and> user_id u \<noteq> [] \<longrightarrow> author p = user_id u)
       \<and> (caller req = None \<longrightarrow> author p = ''68ae1145a564344c2e6e03fb'')
       \<and> (\<forall>u. caller req = Some u \<and> user_id u = [] \<longrightarrow> author p = ''68ae1145a564344c2e6e03fb'')"
proof -
  from addPost_created [OF assms]
  obtain oid p where fresh: "db oid = None"
    and eq: "addPost env req db = (respond 201 (Doc (Some p)), db(oid \<mapsto> p))"
    and au: "author p = author_of (caller req)"
    by blast
  have "\<forall>u. caller req = Some u \<and> user_id u \<noteq> [] \<longrightarrow> author p = user_id u"
    and "caller req = None \<longrightarrow> author p = ''68ae1145a564344c2e6e03fb''"
    and "\<forall>u. caller req = Some u \<and> user_id u = [] \<longrightarrow> author p = ''68ae1145a564344c2e6e03fb''"
    using au by (auto simp: author_of_def fallback_author_def)
  then show ?thesis
    unfolding eq using fresh
    by (intro exI [of _ oid] exI [of _ p]) (simp add: respond_def)
qed

theorem C7_author_of_created_post_witness:
  "(\<exists>oid p. snd (addPost sample_env (mk_request [] (Some alice) hello_body) Map.empty)
        = Map.empty(oid \<mapsto> p)
      \<and> author p = ''64f1a2b3c4d5e6f708192a01'')
   \<and> (\<exists>oid p. snd (addPost sample_env (mk_request [] None hello_body) Map.empty)
        = Map.empty(oid \<mapsto> p)
      \<and> author p = ''68ae1145a564344c2e6e03fb'')"
proof -
  let ?r1 = "mk_request [] (Some alice) hello_body"
  let ?r2 = "mk_request [] None hello_body"
  have c1: "caller ?r1 = Some alice \<and> user_id alice \<noteq> []"
    and i1: "user_id alice = ''64f1a2b3c4d5e6f708192a01''"
    and c2: "caller ?r2 = None"
    by (simp_all add: mk_request_def alice_def)
  from C7_author_of_created_post [OF addPost_hello_201 [of "[]" "Some alice"]] c1
  obtain o1 p1 where w1: "snd (addPost sample_env ?r1 Map.empty) = Map.empty(o1 \<mapsto> p1)"
    and a1: "author p1 = user_id alice"
    by blast
  from C7_author_of_created_post [OF addPost_hello_201 [of "[]" None]] c2
  obtain o2 p2 where w2: "snd (addPost sample_env ?r2 Map.empty) = Map.empty(o2 \<mapsto> p2)"
    and a2: "author p2 = ''68ae1145a564344c2e6e03fb''"
    by blast
  show ?thesis
    using w1 a1 i1 w2 a2 by metis
qed

section \<open>The published flag\<close>

text \<open>
  C8. For a create that succeeds (201), \<open>published\<close> of the created post is true
  exactly when the supplied value is the boolean \<open>true\<close> or the string \<open>true\<close>.
  For any update request on an existing post, whatever its outcome: when
  \<open>published\<close> is not supplied the stored flag is unchanged; and whenever the
  stored flag changes, \<open>published\<close> was supplied and the new flag is true exactly
  when the supplied value is the boolean \<open>true\<close> or the string \<open>true\<close>. The update
  does set the flag: when the id is well-formed, the caller is the post's author
  or an admin, \<open>tags\<close> and \<open>seo\<close> are each falsy, not a string, or a string that
  \<open>JSON.parse\<close> accepts, and the store accepts the document the handler saves,
  the update is answered 200 and, if \<open>published\<close> is supplied, the stored flag
  is that coercion of it.
\<close>

theorem C8_published_coercion:
  "(status (fst (addPost env req db)) = 201 \<longrightarrow>
      (\<exists>oid p. db oid = None
         \<and> snd (addPost env req db) = db(oid \<mapsto> p)
         \<and> payload (fst (addPost env req db)) = Doc (Some p)
         \<and> (published p \<longleftrightarrow>
              field (body req) ''published'' = JBool True
            \<or> field (body req) ''published'' = JStr ''true'')))
   \<and> (\<forall>p. db (params_id req) = Some p \<longrightarrow>
        (\<exists>p'. snd (updatePost env req db) (params_id req) = Some p'
           \<and> (field (body req) ''published'' = JUndefined \<longrightarrow> published p' = published p)
           \<and> (published p' \<noteq> published p \<longrightarrow>
                field (body req) ''published'' \<noteq> JUndefined
              \<and> (published p' \<longleftrightarrow>
                   field (body req) ''published'' = JBool True
                 \<or> field (body req) ''published'' = JStr ''true''))
           \<and> (field (body req) ''published'' \<noteq> JUndefined
              \<and> status (fst (updatePost env req db)) = 200 \<longrightarrow>
                (published p' \<longleftrightarrow>
                   field (body req) ''published'' = JBool True
                 \<or> field (body req) ''published'' = JStr ''true''))
           \<and> (\<forall>u. isValidObjectId env (params_id req)
                \<and> caller req = Some u
                \<and> (role u = ''admin'' \<or> author p = user_id u)
                \<and> (\<forall>s. field (body req) ''tags'' = JStr s \<and> s \<noteq> [] \<longrightarrow>
                       JSON_parse env s \<noteq> None)
                \<and> (\<forall>s. field (body req) ''seo'' = JStr s \<and> s \<noteq> [] \<longrightarrow>
                       JSON_parse env s \<noteq> None)
                \<and> (\<forall>e1 e2.
                       assign_tags env (field (body req) ''tags'')
                         (assign_scalars (body req) p) = Inr e1
                     \<and> assign_seo env (field (body req) ''seo'') e1 = Inr e2 \<longrightarrow>
                       save_ok env db (params_id req)
                         (assign_image (file_path req)
                            (assign_published (field (body req) ''published'') e2)))
                \<longrightarrow>
                  status (fst (updatePost env req db)) = 200
                \<and> (field (body req) ''published'' \<noteq> JUndefined \<longrightarrow>
                     (published p' \<longleftrightarrow>
                        field (body req) ''published'' = JBool True
                      \<or> field (body req) ''published'' = JStr ''true'')))))"
proof (intro conjI impI allI)
  assume "status (fst (addPost env req db)) = 201"
  from addPost_created [OF this]
  obtain oid p where fresh: "db oid = None"
    and eq: "addPost env req db = (respond 201 (Doc (Some p)), db(oid \<mapsto> p))"
    and pu: "published p = coerce_published (field (body req) ''published'')"
    by blast
  show "\<exists>oid p. db oid = None
         \<and> snd (addPost env req db) = db(oid \<mapsto> p)
         \<and> payload (fst (addPost env req db)) = Doc (Some p)
         \<and> (published p \<longleftrightarrow>
              field (body req) ''published'' = JBool True
            \<or> field (body req) ''published'' = JStr ''true'')"
    unfolding eq using fresh pu
    by (intro exI [of _ oid] exI [of _ p]) (auto simp: respond_def coerce_published_def)
next
  fix p :: post
  assume ex: "db (params_id req) = Some p"
  let ?pu = "field (body req) ''published''"
  let ?co = "?pu = JBool True \<or> ?pu = JStr ''true''"
  let ?st = "status (fst (updatePost env req db))"
  let ?H = "\<lambda>u. isValidObjectId env (params_id req)
                \<and> caller req = Some u
                \<and> (role u = ''admin'' \<or> author p = user_id u)
                \<and> (\<forall>s. field (body req) ''tags'' = JStr s \<and> s \<noteq> [] \<longrightarrow>
                       JSON_parse env s \<noteq> None)
                \<and> (\<forall>s. field (body req) ''seo'' = JStr s \<and> s \<noteq> [] \<longrightarrow>
                       JSON_parse env s \<noteq> None)
                \<and> (\<forall>e1 e2.
                       assign_tags env (field (body req) ''tags'')
                         (assign_scalars (body req) p) = Inr e1
                     \<and> assign_seo env (field (body req) ''seo'') e1 = Inr e2 \<longrightarrow>
                       save_ok env db (params_id req)
                         (assign_image (file_path req)
                            (assign_published (field (body req) ''published'') e2)))"
  let ?Q = "\<lambda>p'. snd (updatePost env req db) (params_id req) = Some p'
           \<and> (?pu = JUndefined \<longrightarrow> published p' = published p)
           \<and> (published p' \<noteq> published p \<longrightarrow> ?pu \<noteq> JUndefined \<and> (published p' \<longleftrightarrow> ?co))
           \<and> (?pu \<noteq> JUndefined \<and> ?st = 200 \<longrightarrow> (published p' \<longleftrightarrow> ?co))
           \<and> (\<forall>u. ?H u \<longrightarrow> ?st = 200 \<and> (?pu \<noteq> JUndefined \<longrightarrow> (published p' \<longleftrightarrow> ?co)))"
  have succ: "?st = 200" if h: "?H u" for u
  proof -
    from h have v: "isValidObjectId env (params_id req)"
      and c: "caller req = Some u"
      and o: "role u = ''admin'' \<or> author p = user_id u"
      and pt: "\<forall>s. field (body req) ''tags'' = JStr s \<and> s \<noteq> [] \<longrightarrow> JSON_parse env s \<noteq> None"
      and ps: "\<forall>s. field (body req) ''seo'' = JStr s \<and> s \<noteq> [] \<longrightarrow> JSON_parse env s \<noteq> None"
      and sv: "\<forall>e1 e2.
                 assign_tags env (field (body req) ''tags'') (assign_scalars (body req) p) = Inr e1
               \<and> assign_seo env (field (body req) ''seo'') e1 = Inr e2 \<longrightarrow>
                 save_ok env db (params_id req)
                   (assign_image (file_path req)
                      (assign_published (field (body req) ''published'') e2))"
      by blast+
    from assign_tags_parses [OF pt]
    obtain e1 where t:
      "assign_tags env (field (body req) ''tags'') (assign_scalars (body req) p) = Inr e1"
      by blast
    from assign_seo_parses [OF ps]
    obtain e2 where s: "assign_seo env (field (body req) ''seo'') e1 = Inr e2"
      by blast
    have ok: "save_ok env db (params_id req)
        (assign_image (file_path req) (assign_published (field (body req) ''published'') e2))"
      using sv t s by blast
    have nf: "\<not> forbidden u p"
      using o by (auto simp: forbidden_def)
    show ?thesis
      by (simp add: updatePost_succeeds [of env req db p u e1 e2, OF v ex c nf t s ok]
          status_respond)
  qed
  from updatePost_store [of env req db]
  show "\<exists>p'. ?Q p'"
  proof
    assume "?st \<noteq> 200 \<and> snd (updatePost env req db) = db"
    then have st: "?st \<noteq> 200" and sn: "snd (updatePost env req db) = db"
      by simp_all
    have c1: "snd (updatePost env req db) (params_id req) = Some p"
      using sn ex by simp
    have c2: "?pu = JUndefined \<longrightarrow> published p = published p"
      by simp
    have c3: "published p \<noteq> published p \<longrightarrow> ?pu \<noteq> JUndefined \<and> (published p \<longleftrightarrow> ?co)"
      by simp
    have c4: "?pu \<noteq> JUndefined \<and> ?st = 200 \<longrightarrow> (published p \<longleftrightarrow> ?co)"
      using st by simp
    have c5: "\<forall>u. ?H u \<longrightarrow> ?st = 200 \<and> (?pu \<noteq> JUndefined \<longrightarrow> (published p \<longleftrightarrow> ?co))"
    proof (intro allI impI)
      fix u
      assume "?H u"
      from succ [OF this] st show "?st = 200 \<and> (?pu \<noteq> JUndefined \<longrightarrow> (published p \<longleftrightarrow> ?co))"
        by simp
    qed
    show ?thesis
      by (rule exI [of _ p]) (intro conjI c1 c2 c3 c4 c5)
  next
    assume "\<exists>p u e1 e2.
        isValidObjectId env (params_id req) \<and> db (params_id req) = Some p
      \<and> caller req = Some u \<and> \<not> forbidden u p
      \<and> assign_tags env (field (body req) ''tags'') (assign_scalars (body req) p) = Inr e1
      \<and> assign_seo env (field (body req) ''seo'') e1 = Inr e2
      \<and> updatePost env req db =
              (respond 200 (Doc (Some (assign_image (file_path req)
                  (assign_published (field (body req) ''published'') e2)))),
               db(params_id req \<mapsto> assign_image (file_path req)
                  (assign_published (field (body req) ''published'') e2)))"
    then obtain e1 e2 where
      t: "assign_tags env (field (body req) ''tags'') (assign_scalars (body req) p) = Inr e1"
      and s: "assign_seo env (field (body req) ''seo'') e1 = Inr e2"
      and eq: "updatePost env req db =
              (respond 200 (Doc (Some (assign_image (file_path req) (assign_published ?pu e2)))),
               db(params_id req \<mapsto> assign_image (file_path req) (assign_published ?pu e2)))"
      using ex by auto
    let ?p' = "assign_image (file_path req) (assign_published ?pu e2)"
    have keep: "published e2 = published p"
      by (simp add: assign_seo_frame [OF s] assign_tags_frame [OF t] assign_scalars_rest)
    have fl: "published ?p' = (if ?pu \<noteq> JUndefined then ?co else published p)"
      by (simp add: assign_image_fields assign_published_fields coerce_published_def keep
          disj_commute)
    have st: "?st = 200"
      by (simp add: eq status_respond)
    have sn: "snd (updatePost env req db) (params_id req) = Some ?p'"
      by (simp add: eq)
    have f1: "?pu = JUndefined \<longrightarrow> published ?p' = published p"
      and f2: "?pu \<noteq> JUndefined \<longrightarrow> (published ?p' \<longleftrightarrow> ?co)"
      unfolding fl by simp_all
    have c3: "published ?p' \<noteq> published p \<longrightarrow>
        ?pu \<noteq> JUndefined \<and> (published ?p' \<longleftrightarrow> ?co)"
      using f1 f2 by blast
    have c4: "?pu \<noteq> JUndefined \<and> ?st = 200 \<longrightarrow> (published ?p' \<longleftrightarrow> ?co)"
      using f2 by blast
    have c0: "?st = 200 \<and> (?pu \<noteq> JUndefined \<longrightarrow> (published ?p' \<longleftrightarrow> ?co))"
      using st f2 by blast
    have c5: "\<forall>u. ?H u \<longrightarrow> ?st = 200 \<and> (?pu \<noteq> JUndefined \<longrightarrow> (published ?p' \<longleftrightarrow> ?co))"
      by (intro allI impI) (rule c0)
    show ?thesis
      by (rule exI [of _ ?p']) (intro conjI sn f1 c3 c4 c5)
  qed
qed

theorem C8_published_coercion_witness:
  "(\<exists>oid p. snd (addPost sample_env
        (mk_request [] (Some alice) (hello_body @ [(''published'', JStr ''true'')])) Map.empty)
        = Map.empty(oid \<mapsto> p) \<and> published p)
   \<and> (\<exists>p'. snd (updatePost sample_env (mk_request id_a (Some alice) [(''title'', JStr ''T'')]) db_a)
        id_a = Some p' \<and> published p' = published post_a)
   \<and> (\<exists>p'. snd (updatePost sample_env
        (mk_request id_a (Some alice) [(''published'', JBool True)]) db_a) id_a = Some p'
        \<and> published p')
   \<and> status (fst (updatePost sample_env
        (mk_request id_a (Some alice) [(''published'', JBool True)]) db_a)) = 200
   \<and> \<not> published post_a"
proof -
  let ?b1 = "hello_body @ [(''published'', JStr ''true'')]"
  let ?r1 = "mk_request [] (Some alice) ?b1"
  let ?r2 = "mk_request id_a (Some alice) [(''title'', JStr ''T'')]"
  let ?r3 = "mk_request id_a (Some alice) [(''published'', JBool True)]"
  have f1: "field ?b1 ''title'' = JStr ''Hello World''"
    "truthy (field ?b1 ''content'')" "truthy (field ?b1 ''category'')"
    "field ?b1 ''seo'' = JObj [(''title'', JStr ''x'')]"
    "\<not> truthy (field ?b1 ''slug'')" "\<not> truthy (field ?b1 ''tags'')"
    by (simp_all add: field_def hello_body_def)
  have e: "Map.empty id_b = (None :: post option)"
    by simp
  have s1: "status (fst (addPost sample_env ?r1 Map.empty)) = 201"
    by (simp add: addPost_sample_eval [OF f1 e] status_respond)
  have p1: "field (body ?r1) ''published'' = JStr ''true''"
    by (simp add: mk_request_def field_def hello_body_def)
  have ex: "db_a (params_id ?r2) = Some post_a" "db_a (params_id ?r3) = Some post_a"
    "params_id ?r2 = id_a" "params_id ?r3 = id_a"
    by (simp_all add: mk_request_def db_a_def)
  have p2: "field (body ?r2) ''published'' = JUndefined"
    and p3: "field (body ?r3) ''published'' = JBool True"
    and n3: "field (body ?r3) ''published'' \<noteq> JUndefined"
    by (simp_all add: mk_request_def field_def)
  have h3: "isValidObjectId sample_env (params_id ?r3)"
    "caller ?r3 = Some alice"
    "role alice = ''admin'' \<or> author post_a = user_id alice"
    "\<forall>s. field (body ?r3) ''tags'' = JStr s \<and> s \<noteq> [] \<longrightarrow> JSON_parse sample_env s \<noteq> None"
    "\<forall>s. field (body ?r3) ''seo'' = JStr s \<and> s \<noteq> [] \<longrightarrow> JSON_parse sample_env s \<noteq> None"
    "\<forall>e1 e2.
       assign_tags sample_env (field (body ?r3) ''tags'')
         (assign_scalars (body ?r3) post_a) = Inr e1
     \<and> assign_seo sample_env (field (body ?r3) ''seo'') e1 = Inr e2 \<longrightarrow>
       save_ok sample_env db_a (params_id ?r3)
         (assign_image (file_path ?r3)
            (assign_published (field (body ?r3) ''published'') e2))"
    by (simp_all add: mk_request_def field_def sample_env_sel hex24_id_a alice_def post_a_def)
  have old: "\<not> published post_a"
    by (simp add: post_a_def)
  from C8_published_coercion [of sample_env ?r1 Map.empty] s1 p1
  have a: "\<exists>oid p. snd (addPost sample_env ?r1 Map.empty) = Map.empty(oid \<mapsto> p) \<and> published p"
    by blast
  from C8_published_coercion [of sample_env ?r2 db_a] ex(1) p2
  have b: "\<exists>p'. snd (updatePost sample_env ?r2 db_a) (params_id ?r2) = Some p'
      \<and> published p' = published post_a"
    by blast
  from mp [OF spec [OF conjunct2 [OF C8_published_coercion [of sample_env ?r3 db_a]],
        of post_a] ex(2)]
  obtain p' where w: "snd (updatePost sample_env ?r3 db_a) (params_id ?r3) = Some p'"
    and g: "\<forall>u. isValidObjectId sample_env (params_id ?r3)
                \<and> caller ?r3 = Some u
                \<and> (role u = ''admin'' \<or> author post_a = user_id u)
                \<and> (\<forall>s. field (body ?r3) ''tags'' = JStr s \<and> s \<noteq> [] \<longrightarrow>
                       JSON_parse sample_env s \<noteq> None)
                \<and> (\<forall>s. field (body ?r3) ''seo'' = JStr s \<and> s \<noteq> [] \<longrightarrow>
                       JSON_parse sample_env s \<noteq> None)
                \<and> (\<forall>e1 e2.
                       assign_tags sample_env (field (body ?r3) ''tags'')
                         (assign_scalars (body ?r3) post_a) = Inr e1
                     \<and> assign_seo sample_env (field (body ?r3) ''seo'') e1 = Inr e2 \<longrightarrow>
                       save_ok sample_env db_a (params_id ?r3)
                         (assign_image (file_path ?r3)
                            (assign_published (field (body ?r3) ''published'') e2)))
                \<longrightarrow>
                  status (fst (updatePost sample_env ?r3 db_a)) = 200
                \<and> (field (body ?r3) ''published'' \<noteq> JUndefined \<longrightarrow>
                     (published p' \<longleftrightarrow>
                        field (body ?r3) ''published'' = JBool True
                      \<or> field (body ?r3) ''published'' = JStr ''true''))"
    by (elim exE conjE) (rule that, assumption+)
  have d: "status (fst (updatePost sample_env ?r3 db_a)) = 200
      \<and> (field (body ?r3) ''published'' \<noteq> JUndefined \<longrightarrow>
           (published p' \<longleftrightarrow>
              field (body ?r3) ''published'' = JBool True
            \<or> field (body ?r3) ''published'' = JStr ''true''))"
    by (rule mp [OF spec [OF g, of alice]]) (intro conjI h3)
  then have c: "\<exists>p'. snd (updatePost sample_env ?r3 db_a) (params_id ?r3) = Some p' \<and> published p'"
    using w p3 n3 by blast
  show ?thesis
    using a b c d old unfolding ex(3,4) by blast
qed

end
